theory Spec2Isabelle
  imports Main "HOL-Library.Sublist" "HOL-Library.AList"
begin

text \<open>
  A model of \<^verbatim>\<open>fire.py\<close>, the FireProx API Gateway manager: credential resolution, the
  gateway definition document, and the create, update, delete and list operations, with
  boto3 and tldextract as parameters.  Printing, requests, \<^verbatim>\<open>sys.exit\<close> and exceptions are
  explicit.
\<close>

section \<open>Python values and control flow\<close>

text \<open>
  The command-line arguments of \<^verbatim>\<open>fire.py\<close> are optional strings (\<^verbatim>\<open>None\<close> when the flag
  is absent).  Python tests them by truthiness: \<^verbatim>\<open>None\<close> and the empty string are false.
\<close>

fun truthy :: "string option \<Rightarrow> bool" where
  "truthy None = False"
| "truthy (Some s) = (s \<noteq> [])"

text \<open>What an f-string prints for an optional string.\<close>

fun py_str :: "string option \<Rightarrow> string" where
  "py_str None = ''None''"
| "py_str (Some s) = s"

text \<open>
  Exceptions that can travel through the program: the two botocore exceptions the source
  names in its \<^verbatim>\<open>except\<close> clauses, the two Python errors of subscripting a missing or empty
  URL, and any other exception a library call may raise.
\<close>

datatype exn =
    ClientError string
  | NoRegionError string
  | TypeError
  | IndexError
  | OtherError string

text \<open>
  A method either returns, or leaves through \<^verbatim>\<open>sys.exit(error)\<close> (\<open>Exit\<close>, carrying the
  message), or leaves through an exception nobody caught yet (\<open>Raise\<close>).
\<close>

datatype 'a outcome = Return 'a | Exit string | Raise exn

text \<open>The requests sent to boto3, in the order they are made.\<close>

datatype call =
    BotoClient "string option"
  | BotoSession "(string \<times> string option) list"
  | ImportRestApi string
  | CreateDeployment "string option"
  | GetRestApis
  | GetResources "string option"
  | GetIntegration "string option" "string option"
  | UpdateIntegration "string option" "string option" string
  | DeleteRestApi "string option"

text \<open>The observable effects of a run: the lines printed and the requests made.\<close>

record world =
  printed :: "string list"
  calls :: "call list"

type_synonym 'a action = "world \<Rightarrow> 'a outcome \<times> world"

definition ret :: "'a \<Rightarrow> 'a action" where
  "ret x = (\<lambda>w. (Return x, w))"

definition bnd :: "'a action \<Rightarrow> ('a \<Rightarrow> 'b action) \<Rightarrow> 'b action" where
  "bnd m f = (\<lambda>w. case m w of
                  (Return x, w') \<Rightarrow> f x w'
                | (Exit msg, w') \<Rightarrow> (Exit msg, w')
                | (Raise e, w') \<Rightarrow> (Raise e, w'))"

definition print :: "string \<Rightarrow> unit action" where
  "print line = (\<lambda>w. (Return (), w\<lparr>printed := printed w @ [line]\<rparr>))"

definition sys_exit :: "string \<Rightarrow> 'a action" where
  "sys_exit msg = (\<lambda>w. (Exit msg, w))"

definition lift :: "exn + 'a \<Rightarrow> 'a action" where
  "lift r = (\<lambda>w. case r of Inl e \<Rightarrow> (Raise e, w) | Inr v \<Rightarrow> (Return v, w))"

text \<open>A request to boto3: it is recorded, then it answers or raises.\<close>

definition remote :: "call \<Rightarrow> exn + 'a \<Rightarrow> 'a action" where
  "remote cl r = (\<lambda>w. lift r (w\<lparr>calls := calls w @ [cl]\<rparr>))"

text \<open>\<^verbatim>\<open>try: m  except ClientError as error: h(error)\<close>\<close>

definition except_ClientError :: "'a action \<Rightarrow> (string \<Rightarrow> 'a action) \<Rightarrow> 'a action" where
  "except_ClientError m h = (\<lambda>w. case m w of
                  (Raise (ClientError msg), w') \<Rightarrow> h msg w'
                | r \<Rightarrow> r)"

text \<open>
  \<^verbatim>\<open>try: m  except: h\<close>.  A bare \<^verbatim>\<open>except\<close> catches every exception, \<^verbatim>\<open>SystemExit\<close>
  included.
\<close>

definition except_all :: "'a action \<Rightarrow> 'a action \<Rightarrow> 'a action" where
  "except_all m h = (\<lambda>w. case m w of
                  (Return x, w') \<Rightarrow> (Return x, w')
                | (Exit msg, w') \<Rightarrow> h w'
                | (Raise e, w') \<Rightarrow> h w')"

subsection \<open>Strings\<close>

text \<open>
  \<^verbatim>\<open>s.replace(old, new)\<close>: every occurrence of \<open>old\<close>, found from left to right without
  overlap, becomes \<open>new\<close>; the text put in is not scanned again.
\<close>

function py_replace :: "string \<Rightarrow> string \<Rightarrow> string \<Rightarrow> string" where
  "py_replace s old new =
     (if old = [] then new @ concat (map (\<lambda>c. c # new) s)
      else case s of
             [] \<Rightarrow> []
           | c # cs \<Rightarrow>
               if prefix old s then new @ py_replace (drop (length old) s) old new
               else c # py_replace cs old new)"
  by pat_completeness auto
termination
  by (relation "measure (\<lambda>(s, old, new). length s)") (auto simp: prefix_def)

declare py_replace.simps [simp del]

text \<open>
  \<^verbatim>\<open>if url[-1] == '/': url = url[:-1]\<close>, as written in \<^verbatim>\<open>get_template\<close> and in
  \<^verbatim>\<open>update_api\<close>.  Subscripting \<^verbatim>\<open>None\<close> raises TypeError, subscripting the empty string
  raises IndexError.
\<close>

fun strip_trailing_slash :: "string option \<Rightarrow> exn + string" where
  "strip_trailing_slash None = Inl TypeError"
| "strip_trailing_slash (Some u) =
     (if u = [] then Inl IndexError
      else if last u = CHR ''/'' then Inr (butlast u)
      else Inr u)"

section \<open>The FireProx object and its collaborators\<close>

record fireprox =
  profile_name :: "string option"
  access_key :: "string option"
  secret_access_key :: "string option"
  session_token :: "string option"
  region :: "string option"
  command :: "string option"
  api_id :: "string option"
  url :: "string option"
  help_text :: string

text \<open>A gateway as the provider describes it, and a resource of a gateway.\<close>

record rest_api =
  rest_id :: string
  rest_name :: string
  rest_createdDate :: string
  rest_version :: string

record resource =
  res_id :: string
  res_path :: string

text \<open>
  The API Gateway client (\<^verbatim>\<open>self.client\<close>).  boto3 is not part of the repository: each
  method is a parameter that answers with the field the source reads from the response,
  or with the exception raised.
\<close>

record client =
  client_import_rest_api :: "string \<Rightarrow> exn + rest_api"
  client_create_deployment :: "string option \<Rightarrow> exn + string"
  client_get_rest_apis :: "exn + rest_api list"
  client_get_resources :: "string option \<Rightarrow> exn + resource list"
  client_get_integration :: "string option \<Rightarrow> string option \<Rightarrow> exn + string"
  client_update_integration :: "string option \<Rightarrow> string option \<Rightarrow> string \<Rightarrow> exn + string"
  client_delete_rest_api :: "string option \<Rightarrow> exn + unit"

text \<open>
  The two ways the source obtains a client.  \<open>boto_client r\<close> stands for
  \<^verbatim>\<open>boto3.client('apigateway', region_name=r)\<close> followed by \<^verbatim>\<open>get_account()\<close> and answers
  the region of the client; \<open>boto_session kw\<close> stands for \<^verbatim>\<open>boto3.session.Session(**kw)\<close>
  followed by \<^verbatim>\<open>session.client('apigateway')\<close> and answers the region of the session.
\<close>

record boto =
  boto_client :: "string option \<Rightarrow> exn + string option"
  boto_session :: "(string \<times> string option) list \<Rightarrow> exn + string option"

subsection \<open>error\<close>

text \<open>\<^verbatim>\<open>print(self.help)\<close>, then \<^verbatim>\<open>sys.exit(error)\<close>; the field is named after the constructor's
  parameter \<^verbatim>\<open>help_text\<close>.\<close>

definition error :: "fireprox \<Rightarrow> string \<Rightarrow> 'a action" where
  "error self msg = bnd (print (help_text self)) (\<lambda>_. sys_exit msg)"

subsection \<open>Credentials\<close>

text \<open>
  \<^verbatim>\<open>_try_instance_profile\<close>.  The client is asked for without a region when \<^verbatim>\<open>self.region\<close>
  is false; the bare \<^verbatim>\<open>except\<close> turns every failure into the answer \<^verbatim>\<open>False\<close>.  A method that
  assigns to \<^verbatim>\<open>self.region\<close> returns the changed object next to its result.
\<close>

definition try_instance_profile :: "boto \<Rightarrow> fireprox \<Rightarrow> (bool \<times> fireprox) action" where
  "try_instance_profile b self =
     (let r = (if \<not> truthy (region self) then None else region self) in
      (\<lambda>w. case remote (BotoClient r) (boto_client b r) w of
              (Return reg, w') \<Rightarrow> (Return (True, self\<lparr>region := reg\<rparr>), w')
            | (Exit msg, w') \<Rightarrow> (Return (False, self), w')
            | (Raise e, w') \<Rightarrow> (Return (False, self), w')))"

text \<open>
  The \<^verbatim>\<open>if\<close>/\<^verbatim>\<open>elif\<close>/\<^verbatim>\<open>else\<close> of \<^verbatim>\<open>load_creds\<close> that fills the dictionary
  \<^verbatim>\<open>session_details\<close>.  A Python dictionary keeps the order in which its keys came in, and
  \<open>AList.update\<close> is its item assignment.  The keyword of the session token is spelt as in the
  source.
\<close>

definition session_details :: "fireprox \<Rightarrow> (string \<times> string option) list action" where
  "session_details self =
     (if truthy (profile_name self) then
        ret [(''profile_name'', profile_name self)]
      else if truthy (access_key self) \<and> truthy (secret_access_key self) then
        ret (let details = [(''aws_access_key_id'', access_key self),
                            (''aws_secret_access_key'', secret_access_key self)]
             in if truthy (session_token self)
                then AList.update ''aws_sessoin_token'' (session_token self) details
                else details)
      else error self ''Please configure a profile or provice access keys'')"

text \<open>
  \<^verbatim>\<open>load_creds\<close>.  The \<^verbatim>\<open>try\<close> around the session has handlers for ClientError and
  NoRegionError, both of which call \<^verbatim>\<open>error\<close>; any other exception leaves the method.
\<close>

definition load_creds :: "boto \<Rightarrow> fireprox \<Rightarrow> (bool \<times> fireprox) action" where
  "load_creds b self =
     (if \<not> (truthy (access_key self) \<or> truthy (secret_access_key self)
             \<or> truthy (profile_name self))
      then try_instance_profile b self
      else bnd (session_details self) (\<lambda>details.
        let kw = AList.update ''region_name'' (region self) details in
        (\<lambda>w. case remote (BotoSession kw) (boto_session b kw) w of
                (Return reg, w') \<Rightarrow> (Return (True, self\<lparr>region := reg\<rparr>), w')
              | (Raise (ClientError msg), w') \<Rightarrow> error self msg w'
              | (Raise (NoRegionError msg), w') \<Rightarrow> error self msg w'
              | (Raise e, w') \<Rightarrow> (Raise e, w')
              | (Exit msg, w') \<Rightarrow> (Exit msg, w'))))"

text \<open>The constructor \<^verbatim>\<open>FireProx.__init__\<close>, after the fields are copied.\<close>

definition init :: "boto \<Rightarrow> fireprox \<Rightarrow> fireprox action" where
  "init b self =
     bnd (if truthy (access_key self) \<and> truthy (secret_access_key self)
             \<and> \<not> truthy (region self)
          then error self ''Please provide a region with AWS credentials''
          else ret ()) (\<lambda>_.
     bnd (load_creds b self) (\<lambda>(ok, self').
       if \<not> ok then error self' ''Unable to load AWS credentials'' else ret self'))"

section \<open>The gateway definition document\<close>

text \<open>
  The literal of \<^verbatim>\<open>get_template\<close>, line by line as in the source (the literal opens with
  a line break and ends with the indentation before the closing quotes).
\<close>

definition template :: string where
  \<open>template = concat [
     ''\<newline>'',
     ''        {\<newline>'',
     ''          "swagger": "2.0",\<newline>'',
     ''          "info": {\<newline>'',
     ''            "version": "{{version_date}}",\<newline>'',
     ''            "title": "{{title}}"\<newline>'',
     ''          },\<newline>'',
     ''          "basePath": "/",\<newline>'',
     ''          "schemes": [\<newline>'',
     ''            "https"\<newline>'',
     ''          ],\<newline>'',
     ''          "paths": {\<newline>'',
     ''            "/": {\<newline>'',
     ''              "get": {\<newline>'',
     ''                "parameters": [\<newline>'',
     ''                  {\<newline>'',
     ''                    "name": "proxy",\<newline>'',
     ''                    "in": "path",\<newline>'',
     ''                    "required": true,\<newline>'',
     ''                    "type": "string"\<newline>'',
     ''                  },\<newline>'',
     ''                  {\<newline>'',
     ''                    "name": "X-My-X-Forwarded-For",\<newline>'',
     ''                    "in": "header",\<newline>'',
     ''                    "required": false,\<newline>'',
     ''                    "type": "string"\<newline>'',
     ''                  }\<newline>'',
     ''                ],\<newline>'',
     ''                "responses": {},\<newline>'',
     ''                "x-amazon-apigateway-integration": {\<newline>'',
     ''                  "uri": "{{url}}/",\<newline>'',
     ''                  "responses": {\<newline>'',
     ''                    "default": {\<newline>'',
     ''                      "statusCode": "200"\<newline>'',
     ''                    }\<newline>'',
     ''                  },\<newline>'',
     ''                  "requestParameters": {\<newline>'',
     ''                    "integration.request.path.proxy": "method.request.path.proxy",\<newline>'',
     ''                    "integration.request.header.X-Forwarded-For": "method.request.header.X-My-X-Forwarded-For"\<newline>'',
     ''                  },\<newline>'',
     ''                  "passthroughBehavior": "when_no_match",\<newline>'',
     ''                  "httpMethod": "ANY",\<newline>'',
     ''                  "cacheNamespace": "irx7tm",\<newline>'',
     ''                  "cacheKeyParameters": [\<newline>'',
     ''                    "method.request.path.proxy"\<newline>'',
     ''                  ],\<newline>'',
     ''                  "type": "http_proxy"\<newline>'',
     ''                }\<newline>'',
     ''              }\<newline>'',
     ''            },\<newline>'',
     ''            "/{proxy+}": {\<newline>'',
     ''              "x-amazon-apigateway-any-method": {\<newline>'',
     ''                "produces": [\<newline>'',
     ''                  "application/json"\<newline>'',
     ''                ],\<newline>'',
     ''                "parameters": [\<newline>'',
     ''                  {\<newline>'',
     ''                    "name": "proxy",\<newline>'',
     ''                    "in": "path",\<newline>'',
     ''                    "required": true,\<newline>'',
     ''                    "type": "string"\<newline>'',
     ''                  },\<newline>'',
     ''                  {\<newline>'',
     ''                    "name": "X-My-X-Forwarded-For",\<newline>'',
     ''                    "in": "header",\<newline>'',
     ''                    "required": false,\<newline>'',
     ''                    "type": "string"\<newline>'',
     ''                  }\<newline>'',
     ''                ],\<newline>'',
     ''                "responses": {},\<newline>'',
     ''                "x-amazon-apigateway-integration": {\<newline>'',
     ''                  "uri": "{{url}}/{proxy}",\<newline>'',
     ''                  "responses": {\<newline>'',
     ''                    "default": {\<newline>'',
     ''                      "statusCode": "200"\<newline>'',
     ''                    }\<newline>'',
     ''                  },\<newline>'',
     ''                  "requestParameters": {\<newline>'',
     ''                    "integration.request.path.proxy": "method.request.path.proxy",\<newline>'',
     ''                    "integration.request.header.X-Forwarded-For": "method.request.header.X-My-X-Forwarded-For"\<newline>'',
     ''                  },\<newline>'',
     ''                  "passthroughBehavior": "when_no_match",\<newline>'',
     ''                  "httpMethod": "ANY",\<newline>'',
     ''                  "cacheNamespace": "irx7tm",\<newline>'',
     ''                  "cacheKeyParameters": [\<newline>'',
     ''                    "method.request.path.proxy"\<newline>'',
     ''                  ],\<newline>'',
     ''                  "type": "http_proxy"\<newline>'',
     ''                }\<newline>'',
     ''              }\<newline>'',
     ''            }\<newline>'',
     ''          }\<newline>'',
     ''        }\<newline>'',
     ''        ''
   ]\<close>

text \<open>
  \<^verbatim>\<open>get_template\<close>.  Two things come from outside the repository and are parameters:
  \<open>domain\<close> stands for \<^verbatim>\<open>tldextract.extract(url).domain\<close>, and \<open>version_date\<close> for the
  formatted \<^verbatim>\<open>datetime.datetime.now()\<close>.  \<open>title_of\<close> is the local \<^verbatim>\<open>title\<close>, \<open>render\<close> the
  three calls of \<^verbatim>\<open>replace\<close> in their order; the bytes returned by \<^verbatim>\<open>str.encode\<close> are the
  characters of the string.
\<close>

definition title_of :: "(string \<Rightarrow> string) \<Rightarrow> string \<Rightarrow> string" where
  "title_of domain u = ''fireprox_'' @ domain u"

definition render :: "string \<Rightarrow> string \<Rightarrow> string \<Rightarrow> string" where
  "render u title version_date =
     py_replace
       (py_replace
          (py_replace template ''{{url}}'' u)
          ''{{title}}'' title)
       ''{{version_date}}'' version_date"

definition get_template :: "(string \<Rightarrow> string) \<Rightarrow> string \<Rightarrow> fireprox \<Rightarrow> exn + string" where
  "get_template domain version_date self =
     (case strip_trailing_slash (url self) of
        Inl e \<Rightarrow> Inl e
      | Inr u \<Rightarrow> Inr (render u (title_of domain u) version_date))"

section \<open>Gateway operations\<close>

text \<open>
  The methods of \<^verbatim>\<open>FireProx\<close> that talk to the provider.  Each takes the object \<open>self\<close> and
  the client \<open>c\<close> held in \<^verbatim>\<open>self.client\<close>.  The parameters \<^verbatim>\<open>api_id\<close> and \<^verbatim>\<open>url\<close> of the source
  are written \<open>a\<close> and \<open>u\<close>, since the fields of the object carry those names.  The answer of
  a request stands for the field of the response that the source reads.
\<close>

text \<open>The invocation URL printed for a gateway.\<close>

definition invoke_url :: "fireprox \<Rightarrow> string option \<Rightarrow> string" where
  "invoke_url self a =
     ''https://'' @ py_str a @ ''.execute-api.'' @ py_str (region self)
       @ ''.amazonaws.com/fireprox/''"


definition create_deployment ::
  "fireprox \<Rightarrow> client \<Rightarrow> string option \<Rightarrow> (string \<times> string) action"
where
  "create_deployment self c a =
     bnd (if \<not> truthy a then error self ''Please provide a valid API ID'' else ret ()) (\<lambda>_.
     bnd (except_ClientError
            (remote (CreateDeployment a) (client_create_deployment c a))
            (error self)) (\<lambda>resource_id.
     ret (resource_id, invoke_url self a)))"

text \<open>The loop of \<^verbatim>\<open>get_resource\<close>: the ID of the first resource whose path is the wildcard.\<close>

fun wildcard_id :: "resource list \<Rightarrow> string option" where
  "wildcard_id [] = None"
| "wildcard_id (item # items) =
     (if res_path item = ''/{proxy+}'' then Some (res_id item) else wildcard_id items)"

definition get_resource :: "fireprox \<Rightarrow> client \<Rightarrow> string option \<Rightarrow> string option action" where
  "get_resource self c a =
     bnd (if \<not> truthy a then error self ''Please provide a valid API ID'' else ret ()) (\<lambda>_.
     bnd (except_ClientError
            (remote (GetResources a) (client_get_resources c a))
            (error self)) (\<lambda>items.
     ret (wildcard_id items)))"

definition get_integration :: "fireprox \<Rightarrow> client \<Rightarrow> string option \<Rightarrow> string action" where
  "get_integration self c a =
     bnd (if \<not> truthy a then error self ''Please provide a valid API ID'' else ret ()) (\<lambda>_.
     bnd (get_resource self c a) (\<lambda>resource_id.
     except_ClientError
       (remote (GetIntegration a resource_id) (client_get_integration c a resource_id))
       (error self)))"


definition update_api ::
  "fireprox \<Rightarrow> client \<Rightarrow> string option \<Rightarrow> string option \<Rightarrow> bool action"
where
  "update_api self c a u0 =
     bnd (if \<not> (truthy a \<or> truthy u0)
          then error self ''Please provide a valid API ID and URL end-point''
          else ret ()) (\<lambda>_.
     bnd (lift (strip_trailing_slash u0)) (\<lambda>u.
     bnd (get_resource self c a) (\<lambda>resource_id.
     if truthy resource_id then
       bnd (print (''Found resource '' @ py_str resource_id @ '' for '' @ py_str a @ ''!''))
         (\<lambda>_.
       bnd (except_ClientError
              (remote (UpdateIntegration a resource_id (u @ ''/'' @ ''{proxy}''))
                 (client_update_integration c a resource_id (u @ ''/'' @ ''{proxy}'')))
              (error self)) (\<lambda>uri.
       ret (py_replace uri ''/{proxy}'' '''' = u)))
     else error self (''Unable to update, no valid resource for '' @ py_str a))))"

text \<open>The line \<^verbatim>\<open>list_api\<close> prints for a gateway whose integration URI is \<open>uri\<close>.\<close>

definition list_line :: "fireprox \<Rightarrow> rest_api \<Rightarrow> string \<Rightarrow> string" where
  "list_line self item uri =
     ''['' @ rest_createdDate item @ ''] ('' @ rest_id item @ '') '' @ rest_name item
       @ '': '' @ invoke_url self (Some (rest_id item)) @ '' => ''
       @ py_replace uri ''{proxy}'' ''''"

text \<open>One turn of the loop of \<^verbatim>\<open>list_api\<close>, with its \<^verbatim>\<open>try\<close> and bare \<^verbatim>\<open>except: pass\<close>.\<close>

definition list_item :: "fireprox \<Rightarrow> client \<Rightarrow> string option \<Rightarrow> rest_api \<Rightarrow> unit action" where
  "list_item self c deleted_api_id item =
     except_all
       (bnd (get_integration self c (Some (rest_id item))) (\<lambda>uri.
          if \<not> (Some (rest_id item) = deleted_api_id)
          then print (list_line self item uri)
          else ret ()))
       (ret ())"

fun list_items :: "fireprox \<Rightarrow> client \<Rightarrow> string option \<Rightarrow> rest_api list \<Rightarrow> unit action" where
  "list_items self c deleted_api_id [] = ret ()"
| "list_items self c deleted_api_id (item # items) =
     bnd (list_item self c deleted_api_id item) (\<lambda>_.
       list_items self c deleted_api_id items)"

definition list_api :: "fireprox \<Rightarrow> client \<Rightarrow> string option \<Rightarrow> rest_api list action" where
  "list_api self c deleted_api_id =
     bnd (except_ClientError (remote GetRestApis (client_get_rest_apis c)) (error self))
       (\<lambda>items.
     bnd (list_items self c deleted_api_id items) (\<lambda>_.
     ret items))"

text \<open>The loop of \<^verbatim>\<open>delete_api\<close> over the listing.\<close>

fun delete_listed :: "fireprox \<Rightarrow> client \<Rightarrow> string option \<Rightarrow> rest_api list \<Rightarrow> bool action" where
  "delete_listed self c a [] = ret False"
| "delete_listed self c a (item # items) =
     (if Some (rest_id item) = a then
        bnd (except_ClientError
               (remote (DeleteRestApi a) (client_delete_rest_api c a))
               (error self)) (\<lambda>_.
        ret True)
      else delete_listed self c a items)"

definition delete_api :: "fireprox \<Rightarrow> client \<Rightarrow> string option \<Rightarrow> bool action" where
  "delete_api self c a =
     bnd (if \<not> truthy a then error self ''Please provide a valid API ID'' else ret ()) (\<lambda>_.
     bnd (list_api self c a) (\<lambda>items.
     delete_listed self c a items))"

subsection \<open>The pieces of the document around its placeholders\<close>

text \<open>
  The literal cut at its four placeholders: \<open>doc_head\<close> runs up to the version, \<open>doc_info\<close>
  from there to the title, \<open>doc_root\<close> up to the integration URI of the root route,
  \<open>doc_wildcard\<close> up to the integration URI of the wildcard route, \<open>doc_tail\<close> is the rest.
\<close>

definition doc_head :: string where
  \<open>doc_head = concat [
     ''\<newline>'',
     ''        {\<newline>'',
     ''          "swagger": "2.0",\<newline>'',
     ''          "info": {\<newline>'',
     ''            "version": "''
   ]\<close>

definition doc_info :: string where
  \<open>doc_info = concat [
     ''",\<newline>'',
     ''            "title": "''
   ]\<close>

definition doc_root :: string where
  \<open>doc_root = concat [
     ''"\<newline>'',
     ''          },\<newline>'',
     ''          "basePath": "/",\<newline>'',
     ''          "schemes": [\<newline>'',
     ''            "https"\<newline>'',
     ''          ],\<newline>'',
     ''          "paths": {\<newline>'',
     ''            "/": {\<newline>'',
     ''              "get": {\<newline>'',
     ''                "parameters": [\<newline>'',
     ''                  {\<newline>'',
     ''                    "name": "proxy",\<newline>'',
     ''                    "in": "path",\<newline>'',
     ''                    "required": true,\<newline>'',
     ''                    "type": "string"\<newline>'',
     ''                  },\<newline>'',
     ''                  {\<newline>'',
     ''                    "name": "X-My-X-Forwarded-For",\<newline>'',
     ''                    "in": "header",\<newline>'',
     ''                    "required": false,\<newline>'',
     ''                    "type": "string"\<newline>'',
     ''                  }\<newline>'',
     ''                ],\<newline>'',
     ''                "responses": {},\<newline>'',
     ''                "x-amazon-apigateway-integration": {\<newline>'',
     ''                  "uri": "''
   ]\<close>

definition doc_wildcard :: string where
  \<open>doc_wildcard = concat [
     ''/",\<newline>'',
     ''                  "responses": {\<newline>'',
     ''                    "default": {\<newline>'',
     ''                      "statusCode": "200"\<newline>'',
     ''                    }\<newline>'',
     ''                  },\<newline>'',
     ''                  "requestParameters": {\<newline>'',
     ''                    "integration.request.path.proxy": "method.request.path.proxy",\<newline>'',
     ''                    "integration.request.header.X-Forwarded-For": "method.request.header.X-My-X-Forwarded-For"\<newline>'',
     ''                  },\<newline>'',
     ''                  "passthroughBehavior": "when_no_match",\<newline>'',
     ''                  "httpMethod": "ANY",\<newline>'',
     ''                  "cacheNamespace": "irx7tm",\<newline>'',
     ''                  "cacheKeyParameters": [\<newline>'',
     ''                    "method.request.path.proxy"\<newline>'',
     ''                  ],\<newline>'',
     ''                  "type": "http_proxy"\<newline>'',
     ''                }\<newline>'',
     ''              }\<newline>'',
     ''            },\<newline>'',
     ''            "/{proxy+}": {\<newline>'',
     ''              "x-amazon-apigateway-any-method": {\<newline>'',
     ''                "produces": [\<newline>'',
     ''                  "application/json"\<newline>'',
     ''                ],\<newline>'',
     ''                "parameters": [\<newline>'',
     ''                  {\<newline>'',
     ''                    "name": "proxy",\<newline>'',
     ''                    "in": "path",\<newline>'',
     ''                    "required": true,\<newline>'',
     ''                    "type": "string"\<newline>'',
     ''                  },\<newline>'',
     ''                  {\<newline>'',
     ''                    "name": "X-My-X-Forwarded-For",\<newline>'',
     ''                    "in": "header",\<newline>'',
     ''                    "required": false,\<newline>'',
     ''                    "type": "string"\<newline>'',
     ''                  }\<newline>'',
     ''                ],\<newline>'',
     ''                "responses": {},\<newline>'',
     ''                "x-amazon-apigateway-integration": {\<newline>'',
     ''                  "uri": "''
   ]\<close>

definition doc_tail :: string where
  \<open>doc_tail = concat [
     ''/{proxy}",\<newline>'',
     ''                  "responses": {\<newline>'',
     ''                    "default": {\<newline>'',
     ''                      "statusCode": "200"\<newline>'',
     ''                    }\<newline>'',
     ''                  },\<newline>'',
     ''                  "requestParameters": {\<newline>'',
     ''                    "integration.request.path.proxy": "method.request.path.proxy",\<newline>'',
     ''                    "integration.request.header.X-Forwarded-For": "method.request.header.X-My-X-Forwarded-For"\<newline>'',
     ''                  },\<newline>'',
     ''                  "passthroughBehavior": "when_no_match",\<newline>'',
     ''                  "httpMethod": "ANY",\<newline>'',
     ''                  "cacheNamespace": "irx7tm",\<newline>'',
     ''                  "cacheKeyParameters": [\<newline>'',
     ''                    "method.request.path.proxy"\<newline>'',
     ''                  ],\<newline>'',
     ''                  "type": "http_proxy"\<newline>'',
     ''                }\<newline>'',
     ''              }\<newline>'',
     ''            }\<newline>'',
     ''          }\<newline>'',
     ''        }\<newline>'',
     ''        ''
   ]\<close>

text \<open>
  \<open>clash old s\<close>: the strings differ at a position both have.  \<open>free_of old s\<close>: no
  occurrence of \<open>old\<close> starts inside \<open>s\<close>, whatever follows \<open>s\<close>.
\<close>

fun clash :: "string \<Rightarrow> string \<Rightarrow> bool" where
  "clash [] s = False"
| "clash (x # xs) [] = False"
| "clash (x # xs) (y # ys) = (x \<noteq> y \<or> clash xs ys)"

fun free_of :: "string \<Rightarrow> string \<Rightarrow> bool" where
  "free_of old [] = True"
| "free_of old (c # cs) = (clash old (c # cs) \<and> free_of old cs)"

text \<open>No two opening braces in a row, and none at the very end.\<close>

fun no_double_brace :: "string \<Rightarrow> bool" where
  "no_double_brace [] = True"
| "no_double_brace [c] = (c \<noteq> CHR ''{'')"
| "no_double_brace (c # d # s) =
     ((c \<noteq> CHR ''{'' \<or> d \<noteq> CHR ''{'') \<and> no_double_brace (d # s))"

text \<open>Recognises the deletion request among the requests made.\<close>

fun is_delete :: "call \<Rightarrow> bool" where
  "is_delete (DeleteRestApi a) = True"
| "is_delete cl = False"

section \<open>A concrete account\<close>

text \<open>
  A provider with two gateways: \<^verbatim>\<open>abc123\<close> was created by this tool and proxies to
  \<^verbatim>\<open>https://example.com\<close>; \<^verbatim>\<open>other99\<close> is some other gateway of the account, with no
  wildcard resource.  An update answers with the URI it was given.
\<close>

definition gw_fireprox :: rest_api where
  "gw_fireprox = \<lparr>rest_id = ''abc123'', rest_name = ''fireprox_example'',
     rest_createdDate = ''2024-05-01 10:00:00+00:00'',
     rest_version = ''2024-05-01T10:00:00Z''\<rparr>"

definition gw_other :: rest_api where
  "gw_other = \<lparr>rest_id = ''other99'', rest_name = ''petstore'',
     rest_createdDate = ''2023-11-20 08:30:00+00:00'', rest_version = ''1.0''\<rparr>"

definition demo_client :: client where
  "demo_client = \<lparr>
     client_import_rest_api = (\<lambda>body. Inr gw_fireprox),
     client_create_deployment = (\<lambda>a. Inr ''dep001''),
     client_get_rest_apis = Inr [gw_other, gw_fireprox],
     client_get_resources = (\<lambda>a.
       if a = Some ''abc123'' then
         Inr [\<lparr>res_id = ''root00'', res_path = ''/''\<rparr>,
              \<lparr>res_id = ''res001'', res_path = ''/{proxy+}''\<rparr>]
       else if a = Some ''other99'' then
         Inr [\<lparr>res_id = ''root11'', res_path = ''/''\<rparr>,
              \<lparr>res_id = ''pets01'', res_path = ''/pets''\<rparr>]
       else Inl (ClientError ''NotFoundException'')),
     client_get_integration = (\<lambda>a r.
       if a = Some ''abc123'' \<and> r = Some ''res001'' then Inr ''https://example.com/{proxy}''
       else if r = None then Inl (OtherError ''ParamValidationError'')
       else Inl (ClientError ''NotFoundException'')),
     client_update_integration = (\<lambda>a r uri. Inr uri),
     client_delete_rest_api = (\<lambda>a. Inr ())\<rparr>"



text \<open>A FireProx object as \<^verbatim>\<open>main\<close> builds it for \<^verbatim>\<open>-c update -i abc123 -u https://example.com/\<close>.\<close>

definition fp_example :: fireprox where
  "fp_example = \<lparr>profile_name = None, access_key = None, secret_access_key = None,
     session_token = None, region = Some ''us-east-1'', command = Some ''update'',
     api_id = Some ''abc123'', url = Some ''https://example.com/'',
     help_text = ''usage: fire.py [-h]''\<rparr>"

definition w_start :: world where
  "w_start = \<lparr>printed = [], calls = []\<rparr>"

text \<open>
  A credential environment.  Creating a client succeeds and keeps the region asked for.
  Creating a session does the same, but as a Python call it raises TypeError for a keyword
  argument the constructor does not have.
\<close>

definition session_keywords :: "string list" where
  "session_keywords = [''aws_access_key_id'', ''aws_secret_access_key'',
     ''aws_session_token'', ''region_name'', ''botocore_session'', ''profile_name'']"

definition demo_boto :: boto where
  "demo_boto = \<lparr>
     boto_client = (\<lambda>r. Inr (if r = None then Some ''us-east-1'' else r)),
     boto_session = (\<lambda>kw.
       if list_all (\<lambda>k. k \<in> set session_keywords) (map fst kw)
       then Inr (case map_of kw ''region_name'' of Some r \<Rightarrow> r | None \<Rightarrow> None)
       else Inl TypeError)\<rparr>"

text \<open>The object built for \<^verbatim>\<open>-a AKIAEXAMPLE -s wJalrEXAMPLE -t FwoGEXAMPLE\<close>.\<close>

definition fp_keys :: fireprox where
  "fp_keys = fp_example\<lparr>access_key := Some ''AKIAEXAMPLE'',
     secret_access_key := Some ''wJalrEXAMPLE'', session_token := Some ''FwoGEXAMPLE''\<rparr>"

text \<open>A stand-in for \<^verbatim>\<open>tldextract\<close> that knows one host.\<close>

definition demo_domain :: "string \<Rightarrow> string" where
  "demo_domain u = (if u = ''https://example.com'' then ''example'' else [])"

section \<open>Facts about the building blocks\<close>

lemmas action_defs = ret_def bnd_def print_def sys_exit_def lift_def remote_def
  except_ClientError_def except_all_def error_def

subsection \<open>Replacement in the document\<close>

text \<open>The literal is its five pieces with the four placeholders between them.\<close>

lemma template_parts:
  "template = doc_head @ ''{{version_date}}'' @ doc_info @ ''{{title}}'' @ doc_root
     @ ''{{url}}'' @ doc_wildcard @ ''{{url}}'' @ doc_tail"
  by (simp add: template_def doc_head_def doc_info_def doc_root_def doc_wildcard_def doc_tail_def)

text \<open>
  How a replacement walks over a string: it passes a stretch where no occurrence starts, and
  it decides on the first character otherwise.
\<close>

lemma clash_append: "clash old s \<Longrightarrow> clash old (s @ b)"
  by (induction old s rule: clash.induct) auto

lemma clash_not_prefix: "clash old s \<Longrightarrow> \<not> prefix old s"
  by (induction old s rule: clash.induct) auto

lemma py_replace_Nil: "old \<noteq> [] \<Longrightarrow> py_replace [] old new = []"
  by (simp add: py_replace.simps)

lemma py_replace_skip:
  "old \<noteq> [] \<Longrightarrow> free_of old a \<Longrightarrow> py_replace (a @ b) old new = a @ py_replace b old new"
proof (induction a)
  case Nil
  then show ?case by simp
next
  case (Cons c cs)
  from Cons.prems have "clash old (c # cs)" by simp
  then have "\<not> prefix old ((c # cs) @ b)"
    using clash_append clash_not_prefix by blast
  moreover have "py_replace (cs @ b) old new = cs @ py_replace b old new"
    using Cons by simp
  ultimately show ?case
    using Cons.prems(1) by (subst py_replace.simps) simp
qed

lemma py_replace_Cons:
  "old \<noteq> [] \<Longrightarrow> py_replace (c # s) old new =
     (if prefix old (c # s) then new @ py_replace (drop (length old) (c # s)) old new
      else c # py_replace s old new)"
  by (subst py_replace.simps) simp

lemma free_of_no_head: "old \<noteq> [] \<Longrightarrow> hd old \<notin> set a \<Longrightarrow> free_of old a"
  by (induction a) (auto simp: neq_Nil_conv)

lemma free_of_double_brace:
  "no_double_brace a \<Longrightarrow> free_of (CHR ''{'' # CHR ''{'' # r) a"
  by (induction a rule: no_double_brace.induct) auto

lemma py_replace_free: "old \<noteq> [] \<Longrightarrow> free_of old a \<Longrightarrow> py_replace a old new = a"
  using py_replace_skip [of old a "[]" new] by (simp add: py_replace_Nil)

text \<open>
  Every placeholder opens with two braces, and no piece of the literal has two opening braces
  in a row or one at its end: the pieces are passed unchanged by each replacement.
\<close>

lemma ndb_head: "no_double_brace doc_head"
  by (simp add: doc_head_def)

lemma ndb_info: "no_double_brace doc_info"
  by (simp add: doc_info_def)

lemma ndb_root: "no_double_brace doc_root"
  by (simp add: doc_root_def)

lemma ndb_wildcard: "no_double_brace doc_wildcard"
  by (simp add: doc_wildcard_def)

lemma ndb_tail: "no_double_brace doc_tail"
  by (simp add: doc_tail_def)

lemmas doc_free = ndb_head [THEN free_of_double_brace] ndb_info [THEN free_of_double_brace]
  ndb_root [THEN free_of_double_brace] ndb_wildcard [THEN free_of_double_brace]
  ndb_tail [THEN free_of_double_brace]

text \<open>
  The three replacements in turn.  The first puts the URL at its two places, whatever the
  URL is; the next two leave a URL and a title without an opening brace alone.
\<close>

lemma render_url:
  "py_replace template ''{{url}}'' u =
     doc_head @ ''{{version_date}}'' @ doc_info @ ''{{title}}'' @ doc_root
       @ u @ doc_wildcard @ u @ doc_tail"
  unfolding template_parts
  by (simp add: py_replace_skip py_replace_free py_replace_Cons doc_free)

lemma render_title:
  assumes "CHR ''{'' \<notin> set u"
  shows "py_replace (doc_head @ ''{{version_date}}'' @ doc_info @ ''{{title}}'' @ doc_root
       @ u @ doc_wildcard @ u @ doc_tail) ''{{title}}'' t =
     doc_head @ ''{{version_date}}'' @ doc_info @ t @ doc_root
       @ u @ doc_wildcard @ u @ doc_tail"
proof -
  have "free_of ''{{title}}'' u"
    using assms by (simp add: free_of_no_head)
  then show ?thesis
    by (simp add: py_replace_skip py_replace_free py_replace_Cons doc_free)
qed

lemma render_version:
  assumes "CHR ''{'' \<notin> set u" and "CHR ''{'' \<notin> set t"
  shows "py_replace (doc_head @ ''{{version_date}}'' @ doc_info @ t @ doc_root
       @ u @ doc_wildcard @ u @ doc_tail) ''{{version_date}}'' v =
     doc_head @ v @ doc_info @ t @ doc_root @ u @ doc_wildcard @ u @ doc_tail"
proof -
  have "free_of ''{{version_date}}'' u" "free_of ''{{version_date}}'' t"
    using assms by (simp_all add: free_of_no_head)
  then show ?thesis
    by (simp add: py_replace_skip py_replace_free py_replace_Cons doc_free)
qed

lemma render_parts:
  assumes "CHR ''{'' \<notin> set u" and "CHR ''{'' \<notin> set t"
  shows "render u t v =
     doc_head @ v @ doc_info @ t @ doc_root @ u @ doc_wildcard @ u @ doc_tail"
  unfolding render_def render_url
  by (simp only: render_title [OF assms(1)] render_version [OF assms])

subsection \<open>Requests and their failures\<close>

text \<open>What each method does when a request is answered, and when it is refused.\<close>

lemma error_run:
  "error self msg w = (Exit msg, w\<lparr>printed := printed w @ [help_text self]\<rparr>)"
  by (simp add: action_defs)

lemma get_resource_missing:
  "\<not> truthy a \<Longrightarrow> get_resource self c a w =
     (Exit ''Please provide a valid API ID'', w\<lparr>printed := printed w @ [help_text self]\<rparr>)"
  by (simp add: get_resource_def action_defs)

lemma get_resource_found:
  "truthy a \<Longrightarrow> client_get_resources c a = Inr rs \<Longrightarrow>
   get_resource self c a w = (Return (wildcard_id rs), w\<lparr>calls := calls w @ [GetResources a]\<rparr>)"
  by (simp add: get_resource_def action_defs)

lemma get_resource_denied:
  "truthy a \<Longrightarrow> client_get_resources c a = Inl (ClientError e) \<Longrightarrow>
   get_resource self c a w =
     (Exit e, w\<lparr>calls := calls w @ [GetResources a], printed := printed w @ [help_text self]\<rparr>)"
  by (simp add: get_resource_def action_defs)

text \<open>
  Nothing in \<^verbatim>\<open>list_api\<close> makes a deletion request, and a turn of its loop always returns.
\<close>

lemma get_resource_calls:
  "filter is_delete (calls (snd (get_resource self c a w))) = filter is_delete (calls w)"
  by (cases "client_get_resources c a")
     (auto simp: get_resource_def action_defs split: exn.splits)

lemma get_integration_calls:
  "filter is_delete (calls (snd (get_integration self c a w))) = filter is_delete (calls w)"
proof (cases "truthy a")
  case False
  then show ?thesis by (simp add: get_integration_def action_defs)
next
  case True
  obtain r w1 where g: "get_resource self c a w = (r, w1)"
    by (cases "get_resource self c a w")
  have w1: "filter is_delete (calls w1) = filter is_delete (calls w)"
    using get_resource_calls [of self c a w] g by simp
  show ?thesis
    using True g w1
    by (cases r; cases "client_get_integration c a (case r of Return x \<Rightarrow> x)")
       (auto simp: get_integration_def action_defs split: exn.splits)
qed

lemma list_item_returns: "fst (list_item self c d item w) = Return ()"
  by (cases "get_integration self c (Some (rest_id item)) w")
     (auto simp: list_item_def action_defs split: outcome.splits)

lemma list_item_calls:
  "filter is_delete (calls (snd (list_item self c d item w))) = filter is_delete (calls w)"
  using get_integration_calls [of self c "Some (rest_id item)" w]
  by (cases "get_integration self c (Some (rest_id item)) w")
     (auto simp: list_item_def action_defs split: outcome.splits)

lemma list_items_run:
  "list_items self c d items w =
     (Return (), foldl (\<lambda>w item. snd (list_item self c d item w)) w items)"
proof (induction items arbitrary: w)
  case Nil
  show ?case by (simp add: ret_def)
next
  case (Cons item items)
  obtain w1 where "list_item self c d item w = (Return (), w1)"
    using list_item_returns [of self c d item w]
    by (cases "list_item self c d item w") simp
  then show ?case
    using Cons.IH [of w1] by (simp add: bnd_def)
qed

lemma foldl_list_item_calls:
  "filter is_delete (calls (foldl (\<lambda>w item. snd (list_item self c d item w)) w items))
     = filter is_delete (calls w)"
  by (induction items arbitrary: w) (simp_all add: list_item_calls)

lemma list_api_run:
  "client_get_rest_apis c = Inr items \<Longrightarrow>
   list_api self c d w =
     (Return items,
      foldl (\<lambda>w item. snd (list_item self c d item w))
        (w\<lparr>calls := calls w @ [GetRestApis]\<rparr>) items)"
  by (simp add: list_api_def list_items_run action_defs)


lemma delete_listed_absent:
  "a \<notin> Some ` rest_id ` set items \<Longrightarrow> delete_listed self c a items w = (Return False, w)"
  by (induction items) (auto simp: ret_def)

lemma delete_listed_present:
  "a \<in> Some ` rest_id ` set items \<Longrightarrow>
   delete_listed self c a items =
     bnd (except_ClientError (remote (DeleteRestApi a) (client_delete_rest_api c a))
            (error self)) (\<lambda>_. ret True)"
  by (induction items) auto

section \<open>The definition document\<close>

text \<open>
  Claim C6.  A URL that ends in a slash is used without that one slash, and a non-empty URL
  that does not end in a slash is used as it is: \<^verbatim>\<open>get_template\<close> renders the document
  from the stripped URL, and \<^verbatim>\<open>update_api\<close> sends the stripped URL followed by
  \<^verbatim>\<open>/{proxy}\<close> as the new integration URI (once the gateway ID is given and its wildcard
  resource is found).  Only one slash goes: \<open>u\<close> itself may still end in one.
\<close>

theorem trailing_slash_stripped:
  "get_template domain v (self\<lparr>url := Some (u @ ''/'')\<rparr>) = Inr (render u (title_of domain u) v)
   \<and> (u \<noteq> [] \<and> last u \<noteq> CHR ''/'' \<longrightarrow>
        get_template domain v (self\<lparr>url := Some u\<rparr>) = Inr (render u (title_of domain u) v))
   \<and> (truthy a \<and> client_get_resources c a = Inr rs \<and> wildcard_id rs = Some rid \<and> rid \<noteq> [] \<longrightarrow>
        calls (snd (update_api self c a (Some (u @ ''/'')) w))
          = calls w @ [GetResources a, UpdateIntegration a (Some rid) (u @ ''/{proxy}'')]
        \<and> (u \<noteq> [] \<and> last u \<noteq> CHR ''/'' \<longrightarrow>
             calls (snd (update_api self c a (Some u) w))
               = calls w @ [GetResources a, UpdateIntegration a (Some rid) (u @ ''/{proxy}'')]))"
proof -
  have s1: "strip_trailing_slash (Some (u @ ''/'')) = Inr u"
    by simp
  have s2: "u \<noteq> [] \<and> last u \<noteq> CHR ''/'' \<longrightarrow> strip_trailing_slash (Some u) = Inr u"
    by simp
  have upd: "calls (snd (update_api self c a u0 w))
       = calls w @ [GetResources a, UpdateIntegration a (Some rid) (u @ ''/{proxy}'')]"
    if "strip_trailing_slash u0 = Inr u" "truthy a" "client_get_resources c a = Inr rs"
       "wildcard_id rs = Some rid" "rid \<noteq> []" for u0
    using that
    by (cases "client_update_integration c a (Some rid) (u @ ''/{proxy}'')")
       (auto simp: update_api_def get_resource_def action_defs split: exn.splits)
  show ?thesis
    using s1 s2 upd [of "Some (u @ ''/'')"] upd [of "Some u"]
    by (simp add: get_template_def)
qed

text \<open>The statement at \<^verbatim>\<open>https://example.com/\<close> and \<^verbatim>\<open>https://example.com\<close>.\<close>

theorem trailing_slash_stripped_witness:
  "get_template demo_domain ''2024-05-01T10:00:00Z'' fp_example
     = Inr (render ''https://example.com'' ''fireprox_example'' ''2024-05-01T10:00:00Z'')
   \<and> calls (snd (update_api fp_example demo_client (Some ''abc123'') (Some ''https://example.com/'') w_start))
     = [GetResources (Some ''abc123''),
        UpdateIntegration (Some ''abc123'') (Some ''res001'') ''https://example.com/{proxy}'']
   \<and> calls (snd (update_api fp_example demo_client (Some ''abc123'') (Some ''https://example.com'') w_start))
     = [GetResources (Some ''abc123''),
        UpdateIntegration (Some ''abc123'') (Some ''res001'') ''https://example.com/{proxy}'']"
  using trailing_slash_stripped [where domain = demo_domain and v = "''2024-05-01T10:00:00Z''"
      and self = fp_example and u = "''https://example.com''" and a = "Some ''abc123''"
      and c = demo_client and rid = "''res001''" and w = w_start
      and rs = "[\<lparr>res_id = ''root00'', res_path = ''/''\<rparr>,
                 \<lparr>res_id = ''res001'', res_path = ''/{proxy+}''\<rparr>]"]
  by (simp add: fp_example_def demo_client_def w_start_def title_of_def demo_domain_def)



text \<open>
  Claim C8.  The title put into the document, between \<^verbatim>\<open>"title": "\<close> and the closing
  quote, is \<^verbatim>\<open>fireprox_\<close> followed by what \<^verbatim>\<open>tldextract\<close> gives as the domain of the stripped
  URL.  For \<^verbatim>\<open>https://example.com/\<close> the extractor is asked about \<^verbatim>\<open>https://example.com\<close>,
  and with its answer \<^verbatim>\<open>example\<close> the title is \<^verbatim>\<open>fireprox_example\<close>.
\<close>

theorem title_is_fireprox_domain:
  "(strip_trailing_slash (url self) = Inr u \<and> CHR ''{'' \<notin> set u \<and> CHR ''{'' \<notin> set (domain u) \<longrightarrow>
      get_template domain v self =
        Inr (doc_head @ v @ doc_info @ (''fireprox_'' @ domain u)
             @ doc_root @ u @ doc_wildcard @ u @ doc_tail))
   \<and> suffix ''\"title\": \"'' doc_info
   \<and> prefix ''\"\<newline>          },'' doc_root
   \<and> (domain ''https://example.com'' = ''example'' \<longrightarrow>
        get_template domain v (self\<lparr>url := Some ''https://example.com/''\<rparr>) =
          Inr (doc_head @ v @ doc_info @ ''fireprox_example''
               @ doc_root @ ''https://example.com'' @ doc_wildcard @ ''https://example.com''
               @ doc_tail))"
proof -
  have general: "get_template domain v self' =
        Inr (doc_head @ v @ doc_info @ (''fireprox_'' @ domain u)
             @ doc_root @ u @ doc_wildcard @ u @ doc_tail)"
    if "strip_trailing_slash (url self') = Inr u" "CHR ''{'' \<notin> set u"
       "CHR ''{'' \<notin> set (domain u)" for self' :: fireprox and u
  proof -
    have "CHR ''{'' \<notin> set (title_of domain u)"
      using that(3) by (simp add: title_of_def)
    then show ?thesis
      using that(1,2) by (simp add: get_template_def render_parts) (simp add: title_of_def)
  qed
  have info: "suffix ''\"title\": \"'' doc_info"
    by code_simp
  have root: "prefix ''\"\<newline>          },'' doc_root"
    by code_simp
  have example: "get_template domain v (self\<lparr>url := Some ''https://example.com/''\<rparr>) =
          Inr (doc_head @ v @ doc_info @ ''fireprox_example''
               @ doc_root @ ''https://example.com'' @ doc_wildcard @ ''https://example.com''
               @ doc_tail)"
    if "domain ''https://example.com'' = ''example''"
    using general [of "self\<lparr>url := Some ''https://example.com/''\<rparr>" "''https://example.com''"] that
    by simp
  show ?thesis
    using general [of self u] info root example by blast
qed

text \<open>The statement with an extractor that answers \<^verbatim>\<open>example\<close>.\<close>

theorem title_is_fireprox_domain_witness:
  "get_template demo_domain ''2024-05-01T10:00:00Z'' fp_example =
     Inr (doc_head @ ''2024-05-01T10:00:00Z'' @ doc_info @ ''fireprox_example''
          @ doc_root @ ''https://example.com'' @ doc_wildcard @ ''https://example.com''
          @ doc_tail)"
  using title_is_fireprox_domain [where domain = demo_domain and self = fp_example
      and v = "''2024-05-01T10:00:00Z''" and u = "''https://example.com''"]
  by (simp add: fp_example_def demo_domain_def)
lemma get_integration_found:
  "truthy a \<Longrightarrow> client_get_resources c a = Inr rs \<Longrightarrow>
   client_get_integration c a (wildcard_id rs) = Inr uri \<Longrightarrow>
   get_integration self c a w =
     (Return uri, w\<lparr>calls := calls w @ [GetResources a, GetIntegration a (wildcard_id rs)]\<rparr>)"
  by (simp add: get_integration_def get_resource_def action_defs)

lemma create_deployment_denied:
  "truthy a \<Longrightarrow> client_create_deployment c a = Inl (ClientError e) \<Longrightarrow>
   create_deployment self c a w =
     (Exit e, w\<lparr>calls := calls w @ [CreateDeployment a],
                printed := printed w @ [help_text self]\<rparr>)"
  by (simp add: create_deployment_def action_defs)






lemma delete_api_listed:
  "truthy a \<Longrightarrow> client_get_rest_apis c = Inr items \<Longrightarrow> a \<in> Some ` rest_id ` set items \<Longrightarrow>
   delete_api self c a w =
     bnd (except_ClientError (remote (DeleteRestApi a) (client_delete_rest_api c a))
            (error self)) (\<lambda>_. ret True)
       (foldl (\<lambda>w item. snd (list_item self c a item w))
          (w\<lparr>calls := calls w @ [GetRestApis]\<rparr>) items)"
  using list_api_run [of c items self a w] delete_listed_present [of a items self c]
  by (simp add: delete_api_def) (simp add: bnd_def ret_def)


lemma delete_api_request_issued:
  assumes "truthy a" "client_get_rest_apis c = Inr items" "a \<in> Some ` rest_id ` set items"
  shows "filter is_delete (calls (snd (delete_api self c a w)))
           = filter is_delete (calls w) @ [DeleteRestApi a]"
  by (cases "client_delete_rest_api c a")
     (auto simp: delete_api_listed [OF assms] action_defs foldl_list_item_calls
           split: exn.splits)

lemma list_item_found:
  assumes "rest_id item \<noteq> []"
    and "client_get_resources c (Some (rest_id item)) = Inr rs"
    and "client_get_integration c (Some (rest_id item)) (wildcard_id rs) = Inr uri"
  shows "list_item self c d item w =
     (Return (),
      w\<lparr>calls := calls w @ [GetResources (Some (rest_id item)),
                             GetIntegration (Some (rest_id item)) (wildcard_id rs)],
        printed := printed w @ (if Some (rest_id item) = d then []
                                else [list_line self item uri])\<rparr>)"
  using get_integration_found [of "Some (rest_id item)" c rs uri self w] assms
  by (simp add: list_item_def except_all_def bnd_def print_def ret_def)

lemma list_item_skipped:
  assumes "\<forall>uri. fst (get_integration self c (Some (rest_id item)) w) \<noteq> Return uri"
  shows "list_item self c d item w =
     (Return (), snd (get_integration self c (Some (rest_id item)) w))"
  using assms
  by (cases "get_integration self c (Some (rest_id item)) w")
     (auto simp: list_item_def except_all_def bnd_def ret_def split: outcome.splits)

section \<open>Credentials\<close>

text \<open>
  Claim C9.  \<^verbatim>\<open>load_creds\<close> picks the source of the credentials in a fixed order.  With no
  profile, no access key and no secret key it is \<^verbatim>\<open>_try_instance_profile\<close>, which asks boto3
  for a client from the ambient credentials.  Otherwise a profile, when given, makes the
  session, whether keys are given or not: the session is built from the profile name and the
  region alone.  Without a profile, an access key together with a secret key make the
  session.  In what remains (no profile and only one of the two keys) it leaves through
  \<^verbatim>\<open>error\<close> with the usage message, the help text printed and no request made.
\<close>

theorem load_creds_order:
  "(\<not> truthy (profile_name self) \<and> \<not> truthy (access_key self)
      \<and> \<not> truthy (secret_access_key self) \<longrightarrow>
        load_creds b self = try_instance_profile b self
        \<and> calls (snd (load_creds b self w))
            = calls w @ [BotoClient (if truthy (region self) then region self else None)])
   \<and> (truthy (profile_name self) \<longrightarrow>
        calls (snd (load_creds b self w))
          = calls w @ [BotoSession [(''profile_name'', profile_name self),
                                    (''region_name'', region self)]])
   \<and> (\<not> truthy (profile_name self) \<and> truthy (access_key self)
        \<and> truthy (secret_access_key self) \<longrightarrow>
        (\<exists>token. calls (snd (load_creds b self w))
          = calls w @ [BotoSession ([(''aws_access_key_id'', access_key self),
                                     (''aws_secret_access_key'', secret_access_key self)]
                                    @ token @ [(''region_name'', region self)])]
          \<and> map_of token ''profile_name'' = None))
   \<and> (\<not> truthy (profile_name self)
        \<and> (truthy (access_key self) \<noteq> truthy (secret_access_key self)) \<longrightarrow>
        load_creds b self w =
          (Exit ''Please configure a profile or provice access keys'',
           w\<lparr>printed := printed w @ [help_text self]\<rparr>))"
proof -
  have ambient: "calls (snd (try_instance_profile b self w))
            = calls w @ [BotoClient (if truthy (region self) then region self else None)]"
    by (cases "boto_client b (if truthy (region self) then region self else None)")
       (auto simp: try_instance_profile_def remote_def lift_def Let_def)
  have profile: "calls (snd (load_creds b self w))
          = calls w @ [BotoSession [(''profile_name'', profile_name self),
                                    (''region_name'', region self)]]"
    if "truthy (profile_name self)"
    using that
    by (cases "boto_session b [(''profile_name'', profile_name self),
                               (''region_name'', region self)]")
       (auto simp: load_creds_def session_details_def action_defs Let_def split: exn.splits)
  have keys: "\<exists>token. calls (snd (load_creds b self w))
          = calls w @ [BotoSession ([(''aws_access_key_id'', access_key self),
                                     (''aws_secret_access_key'', secret_access_key self)]
                                    @ token @ [(''region_name'', region self)])]
          \<and> map_of token ''profile_name'' = None"
    if "\<not> truthy (profile_name self)" "truthy (access_key self)"
       "truthy (secret_access_key self)"
  proof (cases "truthy (session_token self)")
    case True
    let ?kw = "[(''aws_access_key_id'', access_key self),
                (''aws_secret_access_key'', secret_access_key self)]
               @ [(''aws_sessoin_token'', session_token self)]
               @ [(''region_name'', region self)]"
    have "calls (snd (load_creds b self w)) = calls w @ [BotoSession ?kw]"
      using that True
      by (cases "boto_session b ?kw")
         (auto simp: load_creds_def session_details_def action_defs Let_def split: exn.splits)
    then show ?thesis by (intro exI [of _ "[(''aws_sessoin_token'', session_token self)]"]) simp
  next
    case False
    let ?kw = "[(''aws_access_key_id'', access_key self),
                (''aws_secret_access_key'', secret_access_key self)]
               @ [] @ [(''region_name'', region self)]"
    have "calls (snd (load_creds b self w)) = calls w @ [BotoSession ?kw]"
      using that False
      by (cases "boto_session b ?kw")
         (auto simp: load_creds_def session_details_def action_defs Let_def split: exn.splits)
    then show ?thesis by (intro exI [of _ "[]"]) simp
  qed
  have usage: "load_creds b self w =
          (Exit ''Please configure a profile or provice access keys'',
           w\<lparr>printed := printed w @ [help_text self]\<rparr>)"
    if "\<not> truthy (profile_name self)"
       "truthy (access_key self) \<noteq> truthy (secret_access_key self)"
    using that by (auto simp: load_creds_def session_details_def action_defs Let_def)
  have first: "load_creds b self = try_instance_profile b self"
    if "\<not> truthy (profile_name self)" "\<not> truthy (access_key self)"
       "\<not> truthy (secret_access_key self)"
    using that by (simp add: load_creds_def)
  show ?thesis
    using ambient profile keys usage first by auto
qed

text \<open>
  One run for each of the four cases.
\<close>

theorem load_creds_order_witness:
  "calls (snd (load_creds demo_boto fp_example w_start)) = [BotoClient (Some ''us-east-1'')]
   \<and> calls (snd (load_creds demo_boto (fp_keys\<lparr>profile_name := Some ''default''\<rparr>) w_start))
       = [BotoSession [(''profile_name'', Some ''default''),
                       (''region_name'', Some ''us-east-1'')]]
   \<and> (\<exists>token. calls (snd (load_creds demo_boto (fp_keys\<lparr>session_token := None\<rparr>) w_start))
       = [BotoSession ([(''aws_access_key_id'', Some ''AKIAEXAMPLE''),
                        (''aws_secret_access_key'', Some ''wJalrEXAMPLE'')]
                       @ token @ [(''region_name'', Some ''us-east-1'')])])
   \<and> load_creds demo_boto (fp_example\<lparr>access_key := Some ''AKIAEXAMPLE''\<rparr>) w_start
       = (Exit ''Please configure a profile or provice access keys'',
          \<lparr>printed = [''usage: fire.py [-h]''], calls = []\<rparr>)"
  using
    load_creds_order [where self = fp_example and b = demo_boto and w = w_start,
      THEN conjunct1]
    load_creds_order [where self = "fp_keys\<lparr>profile_name := Some ''default''\<rparr>"
      and b = demo_boto and w = w_start, THEN conjunct2, THEN conjunct1]
    load_creds_order [where self = "fp_keys\<lparr>session_token := None\<rparr>"
      and b = demo_boto and w = w_start, THEN conjunct2, THEN conjunct2, THEN conjunct1]
    load_creds_order [where self = "fp_example\<lparr>access_key := Some ''AKIAEXAMPLE''\<rparr>"
      and b = demo_boto and w = w_start, THEN conjunct2, THEN conjunct2, THEN conjunct2]
  by (auto simp: fp_example_def fp_keys_def w_start_def)

text \<open>
  Claim C4.  With an access key, a secret key and a session token but no profile, the
  session is built from the keys, but the token does not reach it as the AWS session token:
  the source stores it under the misspelt keyword \<^verbatim>\<open>aws_sessoin_token\<close>, the keyword
  \<^verbatim>\<open>aws_session_token\<close> is never passed, and a session constructor that knows only its own
  keywords raises TypeError, which no \<^verbatim>\<open>except\<close> clause of \<^verbatim>\<open>load_creds\<close> catches.
\<close>

theorem load_creds_session_token_keyword:
  "load_creds demo_boto fp_keys w_start =
     (Raise TypeError,
      \<lparr>printed = [],
       calls = [BotoSession [(''aws_access_key_id'', Some ''AKIAEXAMPLE''),
                             (''aws_secret_access_key'', Some ''wJalrEXAMPLE''),
                             (''aws_sessoin_token'', Some ''FwoGEXAMPLE''),
                             (''region_name'', Some ''us-east-1'')]]\<rparr>)
   \<and> map_of [(''aws_access_key_id'', Some ''AKIAEXAMPLE''),
              (''aws_secret_access_key'', Some ''wJalrEXAMPLE''),
              (''aws_sessoin_token'', Some ''FwoGEXAMPLE''),
              (''region_name'', Some ''us-east-1'')] ''aws_session_token'' = None"
  by (simp add: load_creds_def session_details_def action_defs Let_def fp_keys_def
        fp_example_def demo_boto_def w_start_def session_keywords_def)

section \<open>Updating a gateway\<close>

text \<open>
  Claim C1, as the code has it.  \<^verbatim>\<open>update_api\<close> returns true exactly when the patch request
  is reached and answered (the gateway ID is given, the URL is not empty, the wildcard
  resource is found) and the URI in the answer, with \<^verbatim>\<open>/{proxy}\<close> taken out by
  \<^verbatim>\<open>str.replace\<close>, equals the requested URL without its one trailing slash.
\<close>

theorem update_api_true_iff:
  "(fst (update_api self c a u0 w) = Return True) =
     (\<exists>u rs rid uri. truthy a \<and> strip_trailing_slash u0 = Inr u
        \<and> client_get_resources c a = Inr rs \<and> wildcard_id rs = Some rid \<and> rid \<noteq> []
        \<and> client_update_integration c a (Some rid) (u @ ''/{proxy}'') = Inr uri
        \<and> py_replace uri ''/{proxy}'' '''' = u)"
  by (cases "strip_trailing_slash u0"; cases "client_get_resources c a";
      cases "wildcard_id (projr (client_get_resources c a))";
      cases "client_update_integration c a
               (wildcard_id (projr (client_get_resources c a)))
               (projr (strip_trailing_slash u0) @ ''/{proxy}'')")
     (auto simp: update_api_def get_resource_def action_defs split: exn.splits)

text \<open>
  A run that returns true and a run that returns false.
\<close>

theorem update_api_true_iff_witness:
  "fst (update_api fp_example demo_client (Some ''abc123'') (Some ''https://example.com/'') w_start)
     = Return True
   \<and> fst (update_api fp_example (demo_client\<lparr>client_update_integration :=
              (\<lambda>a r uri. Inr ''https://old.example.org/{proxy}'')\<rparr>)
            (Some ''abc123'') (Some ''https://example.com/'') w_start) = Return False"
  using update_api_true_iff [of fp_example demo_client "Some ''abc123''"
      "Some ''https://example.com/''" w_start]
    update_api_true_iff [of fp_example "demo_client\<lparr>client_update_integration :=
              (\<lambda>a r uri. Inr ''https://old.example.org/{proxy}'')\<rparr>" "Some ''abc123''"
      "Some ''https://example.com/''" w_start]
  by (simp add: update_api_def get_resource_def action_defs demo_client_def fp_example_def
        w_start_def py_replace_Cons py_replace_Nil)

text \<open>
  Compared with the requested URL itself the equivalence fails: for the request
  \<^verbatim>\<open>-u https://example.com/\<close> the provider answers \<^verbatim>\<open>https://example.com/{proxy}\<close>, which
  without the wildcard suffix is \<^verbatim>\<open>https://example.com\<close> and not the requested URL, and
  \<^verbatim>\<open>update_api\<close> returns true.
\<close>

theorem update_api_trailing_slash_counterexample:
  "fst (update_api fp_example demo_client (Some ''abc123'') (Some ''https://example.com/'') w_start)
     = Return True
   \<and> calls (snd (update_api fp_example demo_client (Some ''abc123'')
                   (Some ''https://example.com/'') w_start))
     = [GetResources (Some ''abc123''),
        UpdateIntegration (Some ''abc123'') (Some ''res001'') ''https://example.com/{proxy}'']
   \<and> client_update_integration demo_client (Some ''abc123'') (Some ''res001'')
        ''https://example.com/{proxy}'' = Inr ''https://example.com/{proxy}''
   \<and> py_replace ''https://example.com/{proxy}'' ''/{proxy}'' '''' = ''https://example.com''
   \<and> ''https://example.com'' \<noteq> ''https://example.com/''"
  by (simp add: update_api_def get_resource_def action_defs demo_client_def fp_example_def
        w_start_def py_replace_Cons py_replace_Nil)

text \<open>
  \<^verbatim>\<open>str.replace\<close> takes out every \<^verbatim>\<open>/{proxy}\<close> of the answer, not only the one at the end.
\<close>

lemma py_replace_every_occurrence:
  "py_replace ''https://a.example/{proxy}/b/{proxy}'' ''/{proxy}'' '''' = ''https://a.example/b''"
  by (simp add: py_replace_Cons py_replace_Nil)

text \<open>
  Claim C3.  \<^verbatim>\<open>update_api\<close> guards its arguments with \<^verbatim>\<open>not any([api_id, url])\<close>, which
  holds only when both are missing.  With a gateway ID and no URL the guard lets the call
  through and \<^verbatim>\<open>url[-1]\<close> raises TypeError (IndexError for an empty URL): nothing is
  printed, no request is made, and the process ends with a traceback instead of the usage
  error.  With both missing the usage error comes as the message of the guard says.
\<close>

theorem update_api_missing_url:
  "update_api fp_example demo_client (Some ''abc123'') None w_start = (Raise TypeError, w_start)
   \<and> update_api fp_example demo_client (Some ''abc123'') (Some '''') w_start
        = (Raise IndexError, w_start)
   \<and> update_api fp_example demo_client None None w_start
        = (Exit ''Please provide a valid API ID and URL end-point'',
           w_start\<lparr>printed := [help_text fp_example]\<rparr>)"
  by (simp add: update_api_def action_defs w_start_def)

section \<open>Listing and deleting gateways\<close>

text \<open>
  Claim C5.  Given a gateway ID, a listing that the provider answers, and a provider that
  accepts the deletion when asked, \<^verbatim>\<open>delete_api\<close> returns true exactly when the ID is the
  ID of a gateway in that listing, and false exactly when it is not.  When the ID is not
  listed no deletion request is made; when it is listed exactly one is made, after the
  listing.
\<close>

theorem delete_api_iff_listed:
  assumes "truthy a"
    and "client_get_rest_apis c = Inr items"
    and "client_delete_rest_api c a = Inr ()"
  shows "(fst (delete_api self c a w) = Return True) = (a \<in> Some ` rest_id ` set items)
         \<and> (fst (delete_api self c a w) = Return False) = (a \<notin> Some ` rest_id ` set items)
         \<and> (a \<notin> Some ` rest_id ` set items \<longrightarrow>
              filter is_delete (calls (snd (delete_api self c a w))) = filter is_delete (calls w))
         \<and> (a \<in> Some ` rest_id ` set items \<longrightarrow>
              filter is_delete (calls (snd (delete_api self c a w)))
                = filter is_delete (calls w) @ [DeleteRestApi a])"
proof -
  let ?w1 = "foldl (\<lambda>w item. snd (list_item self c a item w))
               (w\<lparr>calls := calls w @ [GetRestApis]\<rparr>) items"
  have run: "delete_api self c a w = delete_listed self c a items ?w1"
    using assms(1,2) by (simp add: delete_api_def list_api_run bnd_def ret_def)
  have w1: "filter is_delete (calls ?w1) = filter is_delete (calls w)"
    by (simp add: foldl_list_item_calls)
  show ?thesis
  proof (cases "a \<in> Some ` rest_id ` set items")
    case True
    then have "delete_api self c a w = (Return True, ?w1\<lparr>calls := calls ?w1 @ [DeleteRestApi a]\<rparr>)"
      using run assms(3) by (simp add: delete_listed_present action_defs)
    then show ?thesis using True w1 by simp
  next
    case False
    then have "delete_api self c a w = (Return False, ?w1)"
      using run by (simp add: delete_listed_absent)
    then show ?thesis using False w1 by simp
  qed
qed

text \<open>
  Deleting a listed gateway and an unknown one.
\<close>

theorem delete_api_iff_listed_witness:
  "fst (delete_api fp_example demo_client (Some ''abc123'') w_start) = Return True
   \<and> fst (delete_api fp_example demo_client (Some ''zzz000'') w_start) = Return False
   \<and> filter is_delete (calls (snd (delete_api fp_example demo_client (Some ''zzz000'') w_start))) = []
   \<and> filter is_delete (calls (snd (delete_api fp_example demo_client (Some ''abc123'') w_start)))
        = [DeleteRestApi (Some ''abc123'')]"
  using delete_api_iff_listed [of "Some ''abc123''" demo_client "[gw_other, gw_fireprox]" fp_example w_start]
    delete_api_iff_listed [of "Some ''zzz000''" demo_client "[gw_other, gw_fireprox]" fp_example w_start]
  by (simp add: demo_client_def gw_other_def gw_fireprox_def w_start_def)




text \<open>
  Claim C10, as the code has it.  \<^verbatim>\<open>list_api\<close> returns every gateway of the listing, after
  one turn of its loop for each of them.  A turn for a gateway whose integration lookup
  succeeds prints the formatted line unless the ID of the gateway equals \<^verbatim>\<open>deleted_api_id\<close>;
  a turn whose lookup does not return prints no line and leaves only what the lookup did.
  As the returned list keeps the gateway whose line is held back, \<^verbatim>\<open>delete_api\<close> finds a
  listed ID and makes the deletion request.
\<close>

theorem list_api_lines_and_result:
  "(client_get_rest_apis c = Inr items \<longrightarrow>
      list_api self c d w =
        (Return items,
         foldl (\<lambda>w item. snd (list_item self c d item w))
           (w\<lparr>calls := calls w @ [GetRestApis]\<rparr>) items))
   \<and> (rest_id item \<noteq> [] \<and> client_get_resources c (Some (rest_id item)) = Inr rs
        \<and> client_get_integration c (Some (rest_id item)) (wildcard_id rs) = Inr uri \<longrightarrow>
      list_item self c d item w =
        (Return (),
         w\<lparr>calls := calls w @ [GetResources (Some (rest_id item)),
                                GetIntegration (Some (rest_id item)) (wildcard_id rs)],
           printed := printed w @ (if Some (rest_id item) = d then []
                                   else [list_line self item uri])\<rparr>))
   \<and> ((\<forall>uri. fst (get_integration self c (Some (rest_id item)) w) \<noteq> Return uri) \<longrightarrow>
      list_item self c d item w =
        (Return (), snd (get_integration self c (Some (rest_id item)) w)))
   \<and> (truthy a \<and> client_get_rest_apis c = Inr items \<and> a \<in> Some ` rest_id ` set items \<longrightarrow>
      filter is_delete (calls (snd (delete_api self c a w)))
        = filter is_delete (calls w) @ [DeleteRestApi a])"
  using list_api_run [of c items self d w]
    list_item_found [of item c rs uri self d w]
    list_item_skipped [of self c item w d]
    delete_api_request_issued [of a c items self w]
  by blast

text \<open>
  The turn for \<^verbatim>\<open>abc123\<close> with and without \<^verbatim>\<open>deleted_api_id\<close>, the returned listing, and
  the deletion request.
\<close>

theorem list_api_lines_and_result_witness:
  "list_item fp_example demo_client None gw_fireprox w_start =
     (Return (),
      \<lparr>printed = [list_line fp_example gw_fireprox ''https://example.com/{proxy}''],
       calls = [GetResources (Some ''abc123''),
                GetIntegration (Some ''abc123'') (Some ''res001'')]\<rparr>)
   \<and> list_item fp_example demo_client (Some ''abc123'') gw_fireprox w_start =
     (Return (),
      \<lparr>printed = [],
       calls = [GetResources (Some ''abc123''),
                GetIntegration (Some ''abc123'') (Some ''res001'')]\<rparr>)
   \<and> fst (list_api fp_example demo_client (Some ''abc123'') w_start)
       = Return [gw_other, gw_fireprox]
   \<and> filter is_delete (calls (snd (delete_api fp_example demo_client (Some ''abc123'') w_start)))
       = [DeleteRestApi (Some ''abc123'')]"
  using
    list_api_lines_and_result [where c = demo_client and self = fp_example and w = w_start
      and d = None and item = gw_fireprox and uri = "''https://example.com/{proxy}''"
      and rs = "[\<lparr>res_id = ''root00'', res_path = ''/''\<rparr>,
                 \<lparr>res_id = ''res001'', res_path = ''/{proxy+}''\<rparr>]",
      THEN conjunct2, THEN conjunct1]
    list_api_lines_and_result [where c = demo_client and self = fp_example and w = w_start
      and d = "Some ''abc123''" and item = gw_fireprox and uri = "''https://example.com/{proxy}''"
      and rs = "[\<lparr>res_id = ''root00'', res_path = ''/''\<rparr>,
                 \<lparr>res_id = ''res001'', res_path = ''/{proxy+}''\<rparr>]"
      and items = "[gw_other, gw_fireprox]" and a = "Some ''abc123''"]
  by (simp add: demo_client_def fp_example_def w_start_def gw_other_def gw_fireprox_def)

text \<open>
  A line is not printed for every gateway whose ID differs from \<^verbatim>\<open>deleted_api_id\<close>: the
  gateway \<^verbatim>\<open>other99\<close> has no wildcard resource, its integration lookup raises, and
  \<^verbatim>\<open>list_api\<close> with no \<^verbatim>\<open>deleted_api_id\<close> prints the line of \<^verbatim>\<open>abc123\<close> only.
\<close>

theorem list_api_skips_gateway_counterexample:
  "client_get_rest_apis demo_client = Inr [gw_other, gw_fireprox]
   \<and> Some (rest_id gw_other) \<noteq> None
   \<and> list_api fp_example demo_client None w_start =
     (Return [gw_other, gw_fireprox],
      \<lparr>printed = [''[2024-05-01 10:00:00+00:00] (abc123) fireprox_example: https://abc123.execute-api.us-east-1.amazonaws.com/fireprox/ => https://example.com/''],
       calls = [GetRestApis, GetResources (Some ''other99''),
                GetIntegration (Some ''other99'') None, GetResources (Some ''abc123''),
                GetIntegration (Some ''abc123'') (Some ''res001'')]\<rparr>)"
  by (simp add: list_api_def list_item_def list_line_def invoke_url_def get_integration_def
        get_resource_def action_defs demo_client_def fp_example_def w_start_def gw_other_def
        gw_fireprox_def py_replace_Cons py_replace_Nil)

end
